theory Spec2Isabelle
  imports Main "HOL-Library.Word"
begin

section \<open>Field elements (pkg/lambdaworks)\<close>

text \<open>
  \<^verbatim>\<open>type Limb C.limb_t\<close> is an unsigned 64-bit integer and
  \<^verbatim>\<open>type Felt struct { limbs [4]Limb }\<close> is an array of exactly four of them.
  The constructor's arguments are \<^verbatim>\<open>limbs[0]\<close>, ..., \<^verbatim>\<open>limbs[3]\<close> in this order.
\<close>

type_synonym Limb = "64 word"

datatype Felt = Felt (limb0: Limb) (limb1: Limb) (limb2: Limb) (limb3: Limb)

text \<open>
  Modelled from the spec: the native library that fills the limbs
  (\<^verbatim>\<open>lib/lambdaworks.h\<close>) is not part of the sources. The spec's data model says of a
  field element: "Stored in Montgomery form as four 64-bit limbs", and the source says of
  \<^verbatim>\<open>From\<close>: "Gets a Felt representing the "value" number, in Montgomery format". So the
  four limbs hold the 256-bit integer \<open>a * R mod p\<close> for the element of value \<open>a\<close>, where
  \<open>p\<close> is the Cairo prime and \<open>R = 2^256\<close>; \<^verbatim>\<open>limbs[0]\<close> is the most significant limb
  (\<^verbatim>\<open>ToU64\<close> hands out \<^verbatim>\<open>limbs[3]\<close> as the low 64 bits).

  \<open>limbs_nat\<close> is the integer the limbs hold and \<open>limbs_of_nat\<close> the limbs of an integer
  below \<open>2^256\<close>; \<open>felt_value\<close> is the value of the element, \<open>limbs * R^-1 mod p\<close>, and
  \<open>felt_of_nat\<close> the element of a given value.
\<close>

definition limbs_nat :: "Felt \<Rightarrow> nat" where
  "limbs_nat f =
     unat (limb0 f) * 2 ^ 192 + unat (limb1 f) * 2 ^ 128 + unat (limb2 f) * 2 ^ 64 + unat (limb3 f)"

definition limbs_of_nat :: "nat \<Rightarrow> Felt" where
  "limbs_of_nat n =
     Felt (word_of_nat (n div 2 ^ 192)) (word_of_nat (n div 2 ^ 128))
          (word_of_nat (n div 2 ^ 64)) (word_of_nat n)"

text \<open>The Cairo prime \<open>p = 2^251 + 17 * 2^192 + 1\<close>, and \<open>R\<close> with its inverse modulo \<open>p\<close>.\<close>

definition CAIRO_PRIME :: nat where
  "CAIRO_PRIME = 2 ^ 251 + 17 * 2 ^ 192 + 1"

definition MONTGOMERY_R :: nat where
  "MONTGOMERY_R = 2 ^ 256"

definition MONTGOMERY_R_INV :: nat where
  "MONTGOMERY_R_INV =
     113078212145816603762751633895895194930089271709401121343797004406777446400"

definition felt_value :: "Felt \<Rightarrow> nat" where
  "felt_value f = (limbs_nat f * MONTGOMERY_R_INV) mod CAIRO_PRIME"

definition felt_of_nat :: "nat \<Rightarrow> Felt" where
  "felt_of_nat n = limbs_of_nat ((n * MONTGOMERY_R) mod CAIRO_PRIME)"

text \<open>
  Modelled from the spec: the bodies of \<^verbatim>\<open>C.from\<close>, \<^verbatim>\<open>C.add\<close> and \<^verbatim>\<open>C.mul\<close> are
  in the native library, so \<^verbatim>\<open>From\<close> (called \<^verbatim>\<open>FeltFromUint64\<close> by the vm package),
  \<^verbatim>\<open>Add\<close> and \<^verbatim>\<open>Mul\<close> follow the spec's "value in the prime field": the element of the
  given value, of the sum and of the product modulo \<open>p\<close>, each in Montgomery form.
\<close>

definition FeltFromUint64 :: "64 word \<Rightarrow> Felt" where
  "FeltFromUint64 v = felt_of_nat (unat v)"

definition felt_Add :: "Felt \<Rightarrow> Felt \<Rightarrow> Felt" where
  "felt_Add a b = felt_of_nat ((felt_value a + felt_value b) mod CAIRO_PRIME)"

definition felt_Mul :: "Felt \<Rightarrow> Felt \<Rightarrow> Felt" where
  "felt_Mul a b = felt_of_nat ((felt_value a * felt_value b) mod CAIRO_PRIME)"

definition felt_IsZero :: "Felt \<Rightarrow> bool" where
  "felt_IsZero f = (f = FeltFromUint64 0)"

text \<open>
  Modelled from the spec: \<^verbatim>\<open>Felt.Bits\<close> is not in the sources; it is the spec's
  "bit-length" of the element's value (0 for the value 0).
\<close>

fun bit_length :: "nat \<Rightarrow> nat" where
  "bit_length n = (if n = 0 then 0 else Suc (bit_length (n div 2)))"

declare bit_length.simps [simp del]

definition felt_Bits :: "Felt \<Rightarrow> nat" where
  "felt_Bits f = bit_length (felt_value f)"

section \<open>Addresses and memory cells (pkg/vm/memory)\<close>

text \<open>
  \<^verbatim>\<open>type Relocatable struct { SegmentIndex int; Offset uint }\<close>. Go's \<^verbatim>\<open>uint\<close> is a 64-bit
  word whose arithmetic wraps around. No function below computes with a segment index,
  so it is an \<open>int\<close>.
\<close>

record Relocatable =
  SegmentIndex :: int
  Offset :: "64 word"

definition NewRelocatable :: "int \<Rightarrow> 64 word \<Rightarrow> Relocatable" where
  "NewRelocatable segment_idx offset = \<lparr>SegmentIndex = segment_idx, Offset = offset\<rparr>"

text \<open>
  \<^verbatim>\<open>type MaybeRelocatable struct { inner any }\<close>: the inner value is an \<^verbatim>\<open>Int\<close> (a struct
  around a \<^verbatim>\<open>Felt\<close>), a \<^verbatim>\<open>Relocatable\<close>, or nothing at all in the zero value
  \<^verbatim>\<open>MaybeRelocatable{}\<close> that several functions return.
\<close>

datatype MaybeRelocatable = MRInt Felt | MRRelocatable Relocatable | MRNil

section \<open>Errors\<close>

text \<open>
  A Go function of the sources ends in one of three ways: it returns a nil error and
  a value, it returns a non-nil error, or it panics at run time (nil dereference, index
  out of range, write to a nil map). \<^verbatim>\<open>errors.New\<close> is \<open>Err\<close>; \<^verbatim>\<open>errors.Errorf\<close> is
  \<open>Errorf\<close>, which keeps the format string and its arguments as they are passed (how
  the \<^verbatim>\<open>fmt\<close> package renders an argument is not part of the sources);
  \<^verbatim>\<open>errors.Wrapf\<close> is \<open>Wrapf\<close>.
\<close>

datatype fmt_arg =
    ArgInt int
  | ArgFelt Felt
  | ArgRelocatable Relocatable
  | ArgMaybeRelocatable MaybeRelocatable

datatype go_error =
    Panic string
  | Err string
  | Errorf string "fmt_arg list"
  | Wrapf go_error string

text \<open>
  \<^verbatim>\<open>
  func (felt Felt) ToU64() (uint64, error) {
      if felt.limbs[0] == 0 && felt.limbs[1] == 0 && felt.limbs[2] == 0 {
          return uint64(felt.limbs[3]), nil
      } else {
          return 0, errors.New("Cannot convert felt to u64")
      }
  }
  \<close>
\<close>

definition ToU64 :: "Felt \<Rightarrow> go_error + 64 word" where
  "ToU64 felt =
     (if limb0 felt = 0 \<and> limb1 felt = 0 \<and> limb2 felt = 0
      then Inr (limb3 felt)
      else Inl (Err ''Cannot convert felt to u64''))"

section \<open>Operations on addresses and cells\<close>

text \<open>
  \<^verbatim>\<open>GetInt\<close> and \<^verbatim>\<open>GetRelocatable\<close> are Go type assertions: the inner value and true,
  or the zero value of the asked type and false. The vm package calls \<^verbatim>\<open>GetInt\<close> by
  its later name \<^verbatim>\<open>GetFelt\<close> (returning the \<^verbatim>\<open>Felt\<close> itself).
\<close>

definition GetInt :: "MaybeRelocatable \<Rightarrow> Felt \<times> bool" where
  "GetInt m = (case m of MRInt f \<Rightarrow> (f, True) | _ \<Rightarrow> (Felt 0 0 0 0, False))"

definition GetRelocatable :: "MaybeRelocatable \<Rightarrow> Relocatable \<times> bool" where
  "GetRelocatable m =
     (case m of MRRelocatable r \<Rightarrow> (r, True) | _ \<Rightarrow> (\<lparr>SegmentIndex = 0, Offset = 0\<rparr>, False))"

definition GetFelt :: "MaybeRelocatable \<Rightarrow> Felt \<times> bool" where
  "GetFelt m = GetInt m"

text \<open>
  \<^verbatim>\<open>
  func (r *Relocatable) AddFelt(other Int) (Relocatable, error) {
      felt_offset := lambdaworks.FeltFromUint64(uint64(r.Offset))
      new_offset := felt_offset.Add(other.Felt)
      res_offset, err := new_offset.ToU64()
      if err != nil { return Relocatable{}, err }
      return NewRelocatable(r.SegmentIndex, uint(res_offset)), nil
  }
  \<close>
\<close>

definition AddFelt :: "Relocatable \<Rightarrow> Felt \<Rightarrow> go_error + Relocatable" where
  "AddFelt r other =
     (let felt_offset = FeltFromUint64 (Offset r);
          new_offset = felt_Add felt_offset other
      in case ToU64 new_offset of
           Inl err \<Rightarrow> Inl err
         | Inr res_offset \<Rightarrow> Inr (NewRelocatable (SegmentIndex r) res_offset))"

text \<open>
  \<^verbatim>\<open>MaybeRelocatable.AddMaybeRelocatable\<close>, branch by branch. In the branch "m is an address,
  other is not" a failed \<^verbatim>\<open>AddFelt\<close> ends in \<^verbatim>\<open>return MaybeRelocatable{}, nil\<close>: the
  zero value and a nil error. In the mirrored branch it ends in
  \<^verbatim>\<open>return MaybeRelocatable{}, err\<close>. The vm package calls this function \<^verbatim>\<open>Add\<close>.
\<close>

definition AddMaybeRelocatable ::
    "MaybeRelocatable \<Rightarrow> MaybeRelocatable \<Rightarrow> go_error + MaybeRelocatable" where
  "AddMaybeRelocatable m other =
     (let (m_int, m_is_int) = GetInt m;
          (other_int, other_is_int) = GetInt other
      in if m_is_int \<and> other_is_int then Inr (MRInt (felt_Add m_int other_int))
         else
           let (m_rel, is_rel_m) = GetRelocatable m;
               (other_rel, is_rel_other) = GetRelocatable other
           in if is_rel_m \<and> \<not> is_rel_other then
                (let (other_felt, _) = GetInt other
                 in case AddFelt m_rel other_felt of
                      Inl err \<Rightarrow> Inr MRNil
                    | Inr felt \<Rightarrow> Inr (MRRelocatable felt))
              else if \<not> is_rel_m \<and> is_rel_other then
                (let (m_felt, _) = GetInt m
                 in case AddFelt other_rel m_felt of
                      Inl err \<Rightarrow> Inl err
                    | Inr felt \<Rightarrow> Inr (MRRelocatable felt))
              else Inl (Err ''RelocatableAdd''))"

text \<open>
  \<^verbatim>\<open>
  func (r *Relocatable) RelocateAddress(relocationTable *[]uint) uint {
      return (*relocationTable)[r.SegmentIndex] + r.Offset
  }
  \<close>
  Indexing a slice with a negative index or one that is not below its length panics;
  the sum is a \<^verbatim>\<open>uint\<close> sum.
\<close>

definition RelocateAddress :: "64 word list \<Rightarrow> Relocatable \<Rightarrow> go_error + 64 word" where
  "RelocateAddress relocationTable r =
     (if 0 \<le> SegmentIndex r \<and> nat (SegmentIndex r) < length relocationTable
      then Inr (relocationTable ! nat (SegmentIndex r) + Offset r)
      else Inl (Panic ''index out of range''))"

text \<open>
  \<^verbatim>\<open>
  func (m *MaybeRelocatable) RelocateValue(relocationTable *[]uint) (lambdaworks.Felt, error) {
      inner_int, ok := m.GetInt()
      if ok { return inner_int.Felt, nil }
      inner_relocatable, ok := m.GetRelocatable()
      if ok {
          return lambdaworks.FeltFromUint64(uint64(inner_relocatable.RelocateAddress(relocationTable))), nil
      }
      return lambdaworks.FeltFromUint64(0), errors.New(fmt.Sprintf("Unexpected type %T", m.inner))
  }
  \<close>
\<close>

definition RelocateValue :: "64 word list \<Rightarrow> MaybeRelocatable \<Rightarrow> go_error + Felt" where
  "RelocateValue relocationTable m =
     (let (inner_int, ok) = GetInt m
      in if ok then Inr inner_int
         else
           let (inner_relocatable, ok) = GetRelocatable m
           in if ok then
                (case RelocateAddress relocationTable inner_relocatable of
                   Inl err \<Rightarrow> Inl err
                 | Inr a \<Rightarrow> Inr (FeltFromUint64 a))
              else Inl (Errorf ''Unexpected type %T'' [ArgMaybeRelocatable m]))"

section \<open>Memory\<close>

text \<open>
  Modelled from the spec: the \<^verbatim>\<open>Memory\<close> type is not in the sources. It is the spec's
  "mapping from Relocatable to MaybeRelocatable" in which unwritten cells are unknown:
  \<^verbatim>\<open>Get\<close> "returns the cell or fails UnknownMemoryCell", \<^verbatim>\<open>GetFelt\<close> "additionally
  asserts the tag", and \<^verbatim>\<open>Insert\<close> is write-once ("inserting a value at an address
  already holding a different value fails; re-inserting an equal value succeeds").
\<close>

type_synonym Memory = "Relocatable \<Rightarrow> MaybeRelocatable option"

definition Memory_Get :: "Memory \<Rightarrow> Relocatable \<Rightarrow> go_error + MaybeRelocatable" where
  "Memory_Get mem addr =
     (case mem addr of None \<Rightarrow> Inl (Err ''UnknownMemoryCell'') | Some v \<Rightarrow> Inr v)"

definition Memory_GetFelt :: "Memory \<Rightarrow> Relocatable \<Rightarrow> go_error + Felt" where
  "Memory_GetFelt mem addr =
     (case Memory_Get mem addr of
        Inl err \<Rightarrow> Inl err
      | Inr v \<Rightarrow> (let (felt, is_felt) = GetFelt v
                 in if is_felt then Inr felt else Inl (Err ''ExpectedFelt'')))"

definition Memory_GetRelocatable :: "Memory \<Rightarrow> Relocatable \<Rightarrow> go_error + Relocatable" where
  "Memory_GetRelocatable mem addr =
     (case Memory_Get mem addr of
        Inl err \<Rightarrow> Inl err
      | Inr v \<Rightarrow> (let (rel, is_rel) = GetRelocatable v
                 in if is_rel then Inr rel else Inl (Err ''ExpectedRelocatable'')))"

definition Memory_Insert :: "Memory \<Rightarrow> Relocatable \<Rightarrow> MaybeRelocatable \<Rightarrow> go_error + Memory" where
  "Memory_Insert mem addr val =
     (case mem addr of
        None \<Rightarrow> Inr (mem(addr \<mapsto> val))
      | Some v \<Rightarrow> if v = val then Inr mem else Inl (Err ''InconsistentMemory''))"

section \<open>Instructions and the run context\<close>

text \<open>
  Modelled from the spec: the \<^verbatim>\<open>Instruction\<close> and \<^verbatim>\<open>RunContext\<close> types and the three
  address computations are not in the sources. The enumerations carry the constant
  names the sources use (\<^verbatim>\<open>AssertEq\<close>, \<^verbatim>\<open>Call\<close>, \<^verbatim>\<open>ResOp1\<close>, \<^verbatim>\<open>ResAdd\<close>, \<^verbatim>\<open>ResMul\<close>,
  \<^verbatim>\<open>ResUnconstrained\<close>); an instruction's size "is 2 if it carries an immediate, else
  1"; an operand address is "base register + offset" with a signed offset.
\<close>

datatype Register = AP | FP

datatype Op1Src = Op1SrcImm | Op1SrcAP | Op1SrcFP | Op1SrcOp0

datatype Res = ResOp1 | ResAdd | ResMul | ResUnconstrained

datatype Opcode = NOp | Call | Ret | AssertEq

record Instruction =
  OffDst :: int
  OffOp0 :: int
  OffOp1 :: int
  DstReg :: Register
  Op0Reg :: Register
  Op1Addr :: Op1Src
  ResLogic :: Res
  Opcode :: Opcode

definition Size :: "Instruction \<Rightarrow> 64 word" where
  "Size instruction = (if Op1Addr instruction = Op1SrcImm then 2 else 1)"

record RunContext =
  Pc :: Relocatable
  Ap :: Relocatable
  Fp :: Relocatable

definition add_offset :: "Relocatable \<Rightarrow> int \<Rightarrow> go_error + Relocatable" where
  "add_offset base off =
     (let n = uint (Offset base) + off
      in if 0 \<le> n \<and> n < 2 ^ 64 then Inr (base\<lparr>Offset := word_of_int n\<rparr>)
         else Inl (Err ''AddressOverflow''))"

definition ComputeDstAddr :: "RunContext \<Rightarrow> Instruction \<Rightarrow> go_error + Relocatable" where
  "ComputeDstAddr rc instruction =
     add_offset (case DstReg instruction of AP \<Rightarrow> Ap rc | FP \<Rightarrow> Fp rc) (OffDst instruction)"

definition ComputeOp0Addr :: "RunContext \<Rightarrow> Instruction \<Rightarrow> go_error + Relocatable" where
  "ComputeOp0Addr rc instruction =
     add_offset (case Op0Reg instruction of AP \<Rightarrow> Ap rc | FP \<Rightarrow> Fp rc) (OffOp0 instruction)"

definition ComputeOp1Addr ::
    "RunContext \<Rightarrow> Instruction \<Rightarrow> MaybeRelocatable option \<Rightarrow> go_error + Relocatable" where
  "ComputeOp1Addr rc instruction op0 =
     (case Op1Addr instruction of
        Op1SrcImm \<Rightarrow> add_offset (Pc rc) (OffOp1 instruction)
      | Op1SrcAP \<Rightarrow> add_offset (Ap rc) (OffOp1 instruction)
      | Op1SrcFP \<Rightarrow> add_offset (Fp rc) (OffOp1 instruction)
      | Op1SrcOp0 \<Rightarrow>
          (case op0 of
             Some (MRRelocatable r) \<Rightarrow> add_offset r (OffOp1 instruction)
           | _ \<Rightarrow> Inl (Err ''ExpectedRelocatable'')))"

section \<open>The virtual machine core (pkg/vm/vm_core.go)\<close>

text \<open>
  Of \<^verbatim>\<open>VirtualMachine\<close> the operand functions touch the run context and the memory of
  the segment manager.
\<close>

record VirtualMachine =
  RunContext :: RunContext
  SegmentsMemory :: Memory

text \<open>
  \<^verbatim>\<open>type Operands struct { Dst MaybeRelocatable; Res *MaybeRelocatable; Op0, Op1 MaybeRelocatable }\<close>.
  A pointer that may be nil is an \<open>option\<close>. \<open>Operands_zero\<close> is the zero value
  \<^verbatim>\<open>Operands{}\<close>.
\<close>

record Operands =
  Dst :: MaybeRelocatable
  Res :: "MaybeRelocatable option"
  Op0 :: MaybeRelocatable
  Op1 :: MaybeRelocatable

definition Operands_zero :: Operands where
  "Operands_zero = \<lparr>Dst = MRNil, Res = None, Op0 = MRNil, Op1 = MRNil\<rparr>"

text \<open>
  \<^verbatim>\<open>
  func (vm *VirtualMachine) DeduceDst(instruction Instruction, res *memory.MaybeRelocatable) *memory.MaybeRelocatable {
      switch instruction.Opcode {
      case AssertEq: return res
      case Call:     return memory.NewMaybeRelocatableRelocatable(vm.RunContext.Fp)
      }
      return nil
  }
  \<close>
\<close>

definition DeduceDst ::
    "VirtualMachine \<Rightarrow> Instruction \<Rightarrow> MaybeRelocatable option \<Rightarrow> MaybeRelocatable option" where
  "DeduceDst vm instruction res =
     (case Opcode instruction of
        AssertEq \<Rightarrow> res
      | Call \<Rightarrow> Some (MRRelocatable (Fp (RunContext vm)))
      | _ \<Rightarrow> None)"

text \<open>
  \<^verbatim>\<open>DeduceOp0\<close> and \<^verbatim>\<open>DeduceOp1\<close> return two pointers and an error. Two operations they
  call are not in the sources and are parameters here: \<open>Sub\<close> is
  \<^verbatim>\<open>MaybeRelocatable.Sub\<close> and \<open>Div\<close> is the native field division behind
  \<^verbatim>\<open>lambdaworks.Div\<close>.

  \<^verbatim>\<open>DeduceOp0\<close> tests \<^verbatim>\<open>dst != nil && op1 != nil\<close> in both of its \<^verbatim>\<open>AssertEq\<close> branches.
\<close>

definition DeduceOp0 ::
    "(MaybeRelocatable \<Rightarrow> MaybeRelocatable \<Rightarrow> go_error + MaybeRelocatable) \<Rightarrow> (Felt \<Rightarrow> Felt \<Rightarrow> Felt) \<Rightarrow>
     VirtualMachine \<Rightarrow> Instruction \<Rightarrow> MaybeRelocatable option \<Rightarrow> MaybeRelocatable option \<Rightarrow>
     go_error + (MaybeRelocatable option \<times> MaybeRelocatable option)" where
  "DeduceOp0 Sub Div vm instruction dst op1 =
     (case Opcode instruction of
        Call \<Rightarrow>
          (let deduced_op0 = Pc (RunContext vm);
               deduced_op0 = deduced_op0\<lparr>Offset := Offset deduced_op0 + Size instruction\<rparr>
           in Inr (Some (MRRelocatable deduced_op0), None))
      | AssertEq \<Rightarrow>
          (case ResLogic instruction of
             ResAdd \<Rightarrow>
               (case (dst, op1) of
                  (Some d, Some a) \<Rightarrow>
                    (case Sub d a of
                       Inl err \<Rightarrow> Inl err
                     | Inr deduced_op0 \<Rightarrow> Inr (Some deduced_op0, dst))
                | _ \<Rightarrow> Inr (None, None))
           | ResMul \<Rightarrow>
               (case (dst, op1) of
                  (Some d, Some a) \<Rightarrow>
                    (let (dst_felt, dst_is_felt) = GetFelt d;
                         (op1_felt, op1_is_felt) = GetFelt a
                     in if dst_is_felt \<and> op1_is_felt \<and> \<not> felt_IsZero op1_felt
                        then Inr (Some (MRInt (Div dst_felt op1_felt)), dst)
                        else Inr (None, None))
                | _ \<Rightarrow> Inr (None, None))
           | _ \<Rightarrow> Inr (None, None))
      | _ \<Rightarrow> Inr (None, None))"

text \<open>
  \<^verbatim>\<open>
  func (vm *VirtualMachine) DeduceOp1(instruction Instruction, dst *memory.MaybeRelocatable, op0 *memory.MaybeRelocatable) (...) {
      if instruction.Opcode == AssertEq {
          switch instruction.ResLogic {
          case ResOp1:
              return dst, dst, nil
          case ResAdd:
              if op0 != nil && dst != nil { ... dst.Sub(*op0) ... }
          case ResMul:
              dst_felt, dst_is_felt := dst.GetFelt()
              op0_felt, op0_is_felt := op0.GetFelt()
              if dst_is_felt && op0_is_felt && !op0_felt.IsZero() {
                  res := memory.NewMaybeRelocatableFelt(dst_felt.Div(op0_felt))
                  return res, dst, nil
              }
          }
      }
      return nil, nil, nil
  }
  \<close>
  \<^verbatim>\<open>GetFelt\<close> has a pointer receiver and reads \<^verbatim>\<open>m.inner\<close>: called on a nil pointer it
  panics with a nil dereference. The \<^verbatim>\<open>ResMul\<close> branch calls it on \<^verbatim>\<open>dst\<close>, then on
  \<^verbatim>\<open>op0\<close>, with no test before.
\<close>

definition DeduceOp1 ::
    "(MaybeRelocatable \<Rightarrow> MaybeRelocatable \<Rightarrow> go_error + MaybeRelocatable) \<Rightarrow> (Felt \<Rightarrow> Felt \<Rightarrow> Felt) \<Rightarrow>
     VirtualMachine \<Rightarrow> Instruction \<Rightarrow> MaybeRelocatable option \<Rightarrow> MaybeRelocatable option \<Rightarrow>
     go_error + (MaybeRelocatable option \<times> MaybeRelocatable option)" where
  "DeduceOp1 Sub Div vm instruction dst op0 =
     (if Opcode instruction = AssertEq then
        (case ResLogic instruction of
           ResOp1 \<Rightarrow> Inr (dst, dst)
         | ResAdd \<Rightarrow>
             (case (op0, dst) of
                (Some a, Some d) \<Rightarrow>
                  (case Sub d a of
                     Inl err \<Rightarrow> Inl err
                   | Inr dst_rel \<Rightarrow> Inr (Some dst_rel, dst))
              | _ \<Rightarrow> Inr (None, None))
         | ResMul \<Rightarrow>
             (case dst of
                None \<Rightarrow> Inl (Panic ''invalid memory address or nil pointer dereference'')
              | Some d \<Rightarrow>
                  (let (dst_felt, dst_is_felt) = GetFelt d
                   in case op0 of
                        None \<Rightarrow> Inl (Panic ''invalid memory address or nil pointer dereference'')
                      | Some a \<Rightarrow>
                          (let (op0_felt, op0_is_felt) = GetFelt a
                           in if dst_is_felt \<and> op0_is_felt \<and> \<not> felt_IsZero op0_felt
                              then Inr (Some (MRInt (Div dst_felt op0_felt)), dst)
                              else Inr (None, None))))
         | ResUnconstrained \<Rightarrow> Inr (None, None))
      else Inr (None, None))"

text \<open>
  \<^verbatim>\<open>ComputeRes\<close>: \<^verbatim>\<open>op1\<close>, the sum, the product of two field elements, or nothing.
\<close>

definition ComputeRes ::
    "Instruction \<Rightarrow> MaybeRelocatable \<Rightarrow> MaybeRelocatable \<Rightarrow> go_error + MaybeRelocatable option" where
  "ComputeRes instruction op0 op1 =
     (case ResLogic instruction of
        ResOp1 \<Rightarrow> Inr (Some op1)
      | ResAdd \<Rightarrow>
          (case AddMaybeRelocatable op0 op1 of
             Inl err \<Rightarrow> Inl err
           | Inr maybe_rel \<Rightarrow> Inr (Some maybe_rel))
      | ResMul \<Rightarrow>
          (let (num_op0, m_type) = GetFelt op0;
               (num_op1, other_type) = GetFelt op1
           in if m_type \<and> other_type then Inr (Some (MRInt (felt_Mul num_op0 num_op1)))
              else Inl (Err ''ComputeResRelocatableMul''))
      | ResUnconstrained \<Rightarrow> Inr None)"

text \<open>
  \<^verbatim>\<open>ComputeOperands\<close>, as it stands. After each \<^verbatim>\<open>Memory.Get\<close> the code tests the error
  of the read (\<^verbatim>\<open>dst_err\<close>, \<^verbatim>\<open>op_err\<close>, \<^verbatim>\<open>op1_err\<close>) and returns
  \<^verbatim>\<open>Operands{}, err\<close>, where \<^verbatim>\<open>err\<close> is the error of the address computation before,
  which is nil at that point. The error of \<^verbatim>\<open>ComputeRes\<close> is assigned and never read.
  The calls of the deduction functions are inside a comment
  ("uncomment once deduction functions are done"), and the function has no
  \<^verbatim>\<open>Memory.Insert\<close>: the machine it returns is the machine it was given.
\<close>

definition ComputeOperands ::
    "VirtualMachine \<Rightarrow> Instruction \<Rightarrow> VirtualMachine \<times> (go_error + Operands)" where
  "ComputeOperands vm instruction =
     (case ComputeDstAddr (RunContext vm) instruction of
        Inl err \<Rightarrow> (vm, Inl (Err ''FailedToComputeDstAddr''))
      | Inr dst_addr \<Rightarrow>
     (case Memory_Get (SegmentsMemory vm) dst_addr of
        Inl dst_err \<Rightarrow> (vm, Inr Operands_zero)
      | Inr dst_op \<Rightarrow>
     (case ComputeOp0Addr (RunContext vm) instruction of
        Inl err \<Rightarrow> (vm, Inl (Err ''FailedToComputeOp0Addr''))
      | Inr op0_addr \<Rightarrow>
     (case Memory_Get (SegmentsMemory vm) op0_addr of
        Inl op_err \<Rightarrow> (vm, Inr Operands_zero)
      | Inr op0_op \<Rightarrow>
     (case ComputeOp1Addr (RunContext vm) instruction (Some op0_op) of
        Inl err \<Rightarrow> (vm, Inl (Err ''FailedToComputeOp1Addr''))
      | Inr op1_addr \<Rightarrow>
     (case Memory_Get (SegmentsMemory vm) op1_addr of
        Inl op1_err \<Rightarrow> (vm, Inr Operands_zero)
      | Inr op1_op \<Rightarrow>
          (let res = (case ComputeRes instruction op0_op op1_op of
                        Inl err \<Rightarrow> None
                      | Inr res \<Rightarrow> res)
           in (vm, Inr \<lparr>Dst = dst_op, Res = res, Op0 = op0_op, Op1 = op1_op\<rparr>))))))))"

section \<open>Builtin runners (pkg/builtins)\<close>

subsection \<open>Pedersen\<close>

definition PEDERSEN_CELLS_PER_INSTANCE :: "64 word" where
  "PEDERSEN_CELLS_PER_INSTANCE = 3"

record PedersenBuiltinRunner =
  base :: Relocatable
  included :: bool
  verified_addresses :: "bool list"

text \<open>
  \<^verbatim>\<open>return &PedersenBuiltinRunner{included: included}\<close>: the other fields are zero values,
  and the zero value of a slice is the nil slice, of length 0.
\<close>

definition NewPedersenBuiltinRunner :: "bool \<Rightarrow> PedersenBuiltinRunner" where
  "NewPedersenBuiltinRunner incl =
     \<lparr>base = \<lparr>SegmentIndex = 0, Offset = 0\<rparr>, included = incl, verified_addresses = []\<rparr>"

text \<open>
  \<^verbatim>\<open>
  func (p *PedersenBuiltinRunner) DeduceMemoryCell(address memory.Relocatable, mem *memory.Memory) (*memory.MaybeRelocatable, error) {
      if address.Offset%PEDERSEN_CELLS_PER_INSTANCE != 2 || p.verified_addresses[address.Offset] {
          return nil, nil
      }
      numA, err := mem.GetFelt(memory.Relocatable{SegmentIndex: address.SegmentIndex, Offset: address.Offset - 1})
      if err != nil { return nil, nil }
      numB, err := mem.GetFelt(memory.Relocatable{SegmentIndex: address.SegmentIndex, Offset: address.Offset - 2})
      if err != nil { return nil, nil }
      if len(p.verified_addresses) <= int(address.Offset) {
          p.verified_addresses = append(p.verified_addresses, false)
      }
      p.verified_addresses[address.Offset] = false
      x := starknet_crypto.PedersenHash(numA, numB)
      return memory.NewMaybeRelocatableFelt(x), nil
  }
  \<close>
  Go evaluates \<^verbatim>\<open>||\<close> left to right and stops at the first true operand; an index
  expression on a slice panics when the index is not below the length. The hash function
  is in a package that is not in the sources and is the parameter \<open>PedersenHash\<close>. The
  runner is mutated through its pointer, so it is returned with the result.
\<close>

definition Pedersen_DeduceMemoryCell ::
    "(Felt \<Rightarrow> Felt \<Rightarrow> Felt) \<Rightarrow> PedersenBuiltinRunner \<Rightarrow> Relocatable \<Rightarrow> Memory \<Rightarrow>
     go_error + (PedersenBuiltinRunner \<times> MaybeRelocatable option)" where
  "Pedersen_DeduceMemoryCell PedersenHash p address mem =
     (if Offset address mod PEDERSEN_CELLS_PER_INSTANCE \<noteq> 2 then Inr (p, None)
      else if \<not> unat (Offset address) < length (verified_addresses p)
        then Inl (Panic ''index out of range'')
      else if verified_addresses p ! unat (Offset address) then Inr (p, None)
      else
        (case Memory_GetFelt mem \<lparr>SegmentIndex = SegmentIndex address, Offset = Offset address - 1\<rparr> of
           Inl err \<Rightarrow> Inr (p, None)
         | Inr numA \<Rightarrow>
        (case Memory_GetFelt mem \<lparr>SegmentIndex = SegmentIndex address, Offset = Offset address - 2\<rparr> of
           Inl err \<Rightarrow> Inr (p, None)
         | Inr numB \<Rightarrow>
             (let va = (if int (length (verified_addresses p)) \<le> sint (Offset address)
                        then verified_addresses p @ [False] else verified_addresses p)
              in if \<not> unat (Offset address) < length va then Inl (Panic ''index out of range'')
                 else Inr (p\<lparr>verified_addresses := va[unat (Offset address) := False]\<rparr>,
                           Some (MRInt (PedersenHash numA numB)))))))"

subsection \<open>Range check\<close>

definition INNER_RC_BOUND_SHIFT :: nat where
  "INNER_RC_BOUND_SHIFT = 16"

definition N_PARTS :: nat where
  "N_PARTS = 8"

text \<open>
  \<^verbatim>\<open>
  func RangeCheckError(err error) error { return errors.Wrapf(err, "Range check error") }
  func OutsideBoundsError(felt lambdaworks.Felt) error {
      return RangeCheckError(errors.Errorf("Value %d is out of bounds [0, 2^128]", felt))
  }
  func NotAFeltError(addr memory.Relocatable, val memory.MaybeRelocatable) error {
      rel, _ := val.GetRelocatable()
      return RangeCheckError(errors.Errorf("Value %d found in %d is not a field element", rel, addr))
  }
  \<close>
\<close>

definition RangeCheckError :: "go_error \<Rightarrow> go_error" where
  "RangeCheckError err = Wrapf err ''Range check error''"

definition OutsideBoundsError :: "Felt \<Rightarrow> go_error" where
  "OutsideBoundsError felt =
     RangeCheckError (Errorf ''Value %d is out of bounds [0, 2^128]'' [ArgFelt felt])"

definition NotAFeltError :: "Relocatable \<Rightarrow> MaybeRelocatable \<Rightarrow> go_error" where
  "NotAFeltError addr val =
     (let (rel, _) = GetRelocatable val
      in RangeCheckError
           (Errorf ''Value %d found in %d is not a field element''
              [ArgRelocatable rel, ArgRelocatable addr]))"

text \<open>
  \<^verbatim>\<open>
  func RangeCheckValidationRule(mem *memory.Memory, address memory.Relocatable) ([]memory.Relocatable, error) {
      res_val, err := mem.Get(address)
      if err != nil { return nil, err }
      felt, is_felt := res_val.GetFelt()
      if !is_felt { return nil, NotAFeltError(address, *res_val) }
      if felt.Bits() <= N_PARTS*INNER_RC_BOUND_SHIFT {
          return []memory.Relocatable{address}, nil
      }
      return nil, OutsideBoundsError(felt)
  }
  \<close>
\<close>

definition RangeCheckValidationRule :: "Memory \<Rightarrow> Relocatable \<Rightarrow> go_error + Relocatable list" where
  "RangeCheckValidationRule mem address =
     (case Memory_Get mem address of
        Inl err \<Rightarrow> Inl err
      | Inr res_val \<Rightarrow>
          (let (felt, is_felt) = GetFelt res_val
           in if \<not> is_felt then Inl (NotAFeltError address res_val)
              else if felt_Bits felt \<le> N_PARTS * INNER_RC_BOUND_SHIFT then Inr [address]
              else Inl (OutsideBoundsError felt)))"

section \<open>The dictionary manager (pkg/hints/dict_manager)\<close>

text \<open>
  A Go map is a reference: copying a \<^verbatim>\<open>Dictionary\<close> or a \<^verbatim>\<open>DictTracker\<close> copies the
  reference, and a write through one copy is seen through every other. So the maps live
  in a heap, and a map value is either the nil map or a reference into the heap.
  A struct, on the contrary, is copied as a value.
\<close>

datatype go_map = NilMap | MapRef nat

type_synonym go_heap = "nat \<Rightarrow> MaybeRelocatable \<Rightarrow> MaybeRelocatable option"

definition map_lookup :: "go_heap \<Rightarrow> go_map \<Rightarrow> MaybeRelocatable \<Rightarrow> MaybeRelocatable option" where
  "map_lookup heap m key = (case m of NilMap \<Rightarrow> None | MapRef r \<Rightarrow> heap r key)"

text \<open>Assigning to an entry of the nil map panics.\<close>

definition map_assign ::
    "go_heap \<Rightarrow> go_map \<Rightarrow> MaybeRelocatable \<Rightarrow> MaybeRelocatable \<Rightarrow> go_error + go_heap" where
  "map_assign heap m key val =
     (case m of
        NilMap \<Rightarrow> Inl (Panic ''assignment to entry in nil map'')
      | MapRef r \<Rightarrow> Inr (heap(r := (heap r)(key \<mapsto> val))))"

record Dictionary =
  dict :: go_map
  defaultValue :: "MaybeRelocatable option"

text \<open>
  \<^verbatim>\<open>
  func NewDefaultDictionary(defaultValue *MaybeRelocatable, dict *map[MaybeRelocatable]MaybeRelocatable) Dictionary {
      return Dictionary{ dict: *dict, defaultValue: defaultValue }
  }
  func NewDictionary(dict *map[MaybeRelocatable]MaybeRelocatable) Dictionary {
      return Dictionary{ dict: *dict, defaultValue: nil }
  }
  \<close>
  The map comes through a pointer, which may be nil.
\<close>

definition NewDefaultDictionary ::
    "MaybeRelocatable option \<Rightarrow> go_map option \<Rightarrow> go_error + Dictionary" where
  "NewDefaultDictionary dv dict_ptr =
     (case dict_ptr of
        None \<Rightarrow> Inl (Panic ''invalid memory address or nil pointer dereference'')
      | Some m \<Rightarrow> Inr \<lparr>dict = m, defaultValue = dv\<rparr>)"

definition NewDictionary :: "go_map option \<Rightarrow> go_error + Dictionary" where
  "NewDictionary dict_ptr =
     (case dict_ptr of
        None \<Rightarrow> Inl (Panic ''invalid memory address or nil pointer dereference'')
      | Some m \<Rightarrow> Inr \<lparr>dict = m, defaultValue = None\<rparr>)"

text \<open>
  \<^verbatim>\<open>
  func (d *Dictionary) Get(key *MaybeRelocatable) *MaybeRelocatable {
      val, ok := d.dict[*key]
      if ok { return &val }
      if d.defaultValue != nil { d.dict[*key] = *d.defaultValue }
      return d.defaultValue
  }
  func (d *Dictionary) Insert(key *MaybeRelocatable, val *MaybeRelocatable) {
      d.dict[*key] = *val
  }
  \<close>
  Both take the heap and return it. The keys and values the hints pass are results of
  successful reads, so they are values here, not pointers.
\<close>

definition Dictionary_Get ::
    "go_heap \<Rightarrow> Dictionary \<Rightarrow> MaybeRelocatable \<Rightarrow> go_error + (go_heap \<times> MaybeRelocatable option)" where
  "Dictionary_Get heap d key =
     (case map_lookup heap (dict d) key of
        Some val \<Rightarrow> Inr (heap, Some val)
      | None \<Rightarrow>
          (case defaultValue d of
             None \<Rightarrow> Inr (heap, None)
           | Some dv \<Rightarrow>
               (case map_assign heap (dict d) key dv of
                  Inl err \<Rightarrow> Inl err
                | Inr heap' \<Rightarrow> Inr (heap', Some dv))))"

definition Dictionary_Insert ::
    "go_heap \<Rightarrow> Dictionary \<Rightarrow> MaybeRelocatable \<Rightarrow> MaybeRelocatable \<Rightarrow> go_error + go_heap" where
  "Dictionary_Insert heap d key val = map_assign heap (dict d) key val"

record DictTracker =
  data :: Dictionary
  currentPtr :: Relocatable

definition DictTracker_GetValue ::
    "go_heap \<Rightarrow> DictTracker \<Rightarrow> MaybeRelocatable \<Rightarrow> go_error + (go_heap \<times> MaybeRelocatable option)" where
  "DictTracker_GetValue heap d key = Dictionary_Get heap (data d) key"

definition DictTracker_InsertValue ::
    "go_heap \<Rightarrow> DictTracker \<Rightarrow> MaybeRelocatable \<Rightarrow> MaybeRelocatable \<Rightarrow> go_error + go_heap" where
  "DictTracker_InsertValue heap d key val = Dictionary_Insert heap (data d) key val"

text \<open>
  \<^verbatim>\<open>type DictManager struct { trackers map[int]DictTracker }\<close>: the map holds tracker
  structs, not pointers to them.
  \<^verbatim>\<open>
  func (d *DictManager) GetTracker(dict_ptr Relocatable) (*DictTracker, error) {
      tracker, ok := d.trackers[dict_ptr.SegmentIndex]
      if !ok {
          return nil, errors.Errorf("Dict Error: No dict tracker found for segment %d", dict_ptr.SegmentIndex)
      }
      if tracker.currentPtr != dict_ptr {
          return nil, errors.Errorf("Dict Error: Wrong dict pointer supplied. Got %v, expected %v", dict_ptr, tracker.currentPtr)
      }
      return &tracker, nil
  }
  \<close>
  \<^verbatim>\<open>tracker\<close> is a local variable that holds a copy of the map's entry, and the
  function returns the address of that variable: what the caller writes through the
  pointer goes to the copy. So \<open>GetTracker\<close> returns a tracker value, and the manager
  changes only where a function assigns to \<^verbatim>\<open>d.trackers[...]\<close>.
\<close>

record DictManager =
  trackers :: "int \<Rightarrow> DictTracker option"

definition GetTracker :: "DictManager \<Rightarrow> Relocatable \<Rightarrow> go_error + DictTracker" where
  "GetTracker d dict_ptr =
     (case trackers d (SegmentIndex dict_ptr) of
        None \<Rightarrow>
          Inl (Errorf ''Dict Error: No dict tracker found for segment %d''
                 [ArgInt (SegmentIndex dict_ptr)])
      | Some tracker \<Rightarrow>
          if currentPtr tracker \<noteq> dict_ptr
          then Inl (Errorf ''Dict Error: Wrong dict pointer supplied. Got %v, expected %v''
                      [ArgRelocatable dict_ptr, ArgRelocatable (currentPtr tracker)])
          else Inr tracker)"

section \<open>Dictionary hints (pkg/hints)\<close>

text \<open>
  Modelled from the spec: \<^verbatim>\<open>IdsManager\<close> and \<^verbatim>\<open>ExecutionScopes\<close> are not in the sources.
  An \<^verbatim>\<open>IdsManager\<close> "maps identifier names to an address expression", here to the address
  the expression has when the hint runs; \<^verbatim>\<open>Get\<close>, \<^verbatim>\<open>GetRelocatable\<close> and \<^verbatim>\<open>Insert\<close>
  "operate in terms of these names" on the memory of the machine. Of the scopes a dict
  hint reads one variable, \<^verbatim>\<open>__dict_manager\<close>, which is absent or holds the manager.
\<close>

type_synonym IdsManager = "string \<Rightarrow> Relocatable option"

definition ids_Get :: "IdsManager \<Rightarrow> string \<Rightarrow> VirtualMachine \<Rightarrow> go_error + MaybeRelocatable" where
  "ids_Get ids name vm =
     (case ids name of
        None \<Rightarrow> Inl (Err ''MissingIdentifier'')
      | Some addr \<Rightarrow> Memory_Get (SegmentsMemory vm) addr)"

definition ids_GetRelocatable :: "IdsManager \<Rightarrow> string \<Rightarrow> VirtualMachine \<Rightarrow> go_error + Relocatable" where
  "ids_GetRelocatable ids name vm =
     (case ids name of
        None \<Rightarrow> Inl (Err ''MissingIdentifier'')
      | Some addr \<Rightarrow> Memory_GetRelocatable (SegmentsMemory vm) addr)"

definition ids_Insert ::
    "IdsManager \<Rightarrow> string \<Rightarrow> MaybeRelocatable \<Rightarrow> VirtualMachine \<Rightarrow> go_error + VirtualMachine" where
  "ids_Insert ids name val vm =
     (case ids name of
        None \<Rightarrow> Inl (Err ''MissingIdentifier'')
      | Some addr \<Rightarrow>
          (case Memory_Insert (SegmentsMemory vm) addr val of
             Inl err \<Rightarrow> Inl err
           | Inr mem \<Rightarrow> Inr (vm\<lparr>SegmentsMemory := mem\<rparr>)))"

text \<open>
  What a hint works on: the machine, the \<^verbatim>\<open>__dict_manager\<close> variable of the scopes and
  the heap of Go maps. A hint returns the new state and its error (\<open>None\<close> is nil).
\<close>

record HintState =
  Vm :: VirtualMachine
  ScopeDictManager :: "DictManager option"
  Heap :: go_heap

definition DICT_ACCESS_SIZE :: "64 word" where
  "DICT_ACCESS_SIZE = 3"

definition FetchDictManager :: "HintState \<Rightarrow> DictManager option" where
  "FetchDictManager st = ScopeDictManager st"

text \<open>
  Modelled from the spec: the hints call \<^verbatim>\<open>tracker.GetValue(key)\<close> with two results,
  a value and an error, while the \<^verbatim>\<open>GetValue\<close> of the sources has one, a pointer that is
  nil when the key has no value. The error is the spec's \<^verbatim>\<open>DictKeyNotFound\<close>.
\<close>

definition hint_GetValue ::
    "go_heap \<Rightarrow> DictTracker \<Rightarrow> MaybeRelocatable \<Rightarrow> go_heap \<times> (go_error + MaybeRelocatable)" where
  "hint_GetValue heap tracker key =
     (case DictTracker_GetValue heap tracker key of
        Inl err \<Rightarrow> (heap, Inl err)
      | Inr (heap', None) \<Rightarrow> (heap', Inl (Err ''DictKeyNotFound''))
      | Inr (heap', Some val) \<Rightarrow> (heap', Inr val))"

text \<open>
  \<^verbatim>\<open>dictRead\<close>: after \<^verbatim>\<open>GetTracker\<close>,
  \<^verbatim>\<open>
  tracker.CurrentPtr.Offset += DICT_ACCESS_SIZE
  val, err := tracker.GetValue(key)
  if err != nil { return err }
  ids.Insert("value", val, vm)
  return nil
  \<close>
  The increment is a write to the tracker \<^verbatim>\<open>GetTracker\<close> returned. The result of
  \<^verbatim>\<open>ids.Insert\<close> is dropped.
\<close>

definition dictRead :: "IdsManager \<Rightarrow> HintState \<Rightarrow> HintState \<times> go_error option" where
  "dictRead ids st =
     (case FetchDictManager st of
        None \<Rightarrow> (st, Some (Err ''Variable __dict_manager not present in current execution scope''))
      | Some dictManager \<Rightarrow>
     (case ids_GetRelocatable ids ''dict_ptr'' (Vm st) of
        Inl err \<Rightarrow> (st, Some err)
      | Inr dict_ptr \<Rightarrow>
     (case ids_Get ids ''key'' (Vm st) of
        Inl err \<Rightarrow> (st, Some err)
      | Inr key \<Rightarrow>
     (case GetTracker dictManager dict_ptr of
        Inl err \<Rightarrow> (st, Some err)
      | Inr tracker \<Rightarrow>
          (let tracker = tracker\<lparr>currentPtr :=
                 (currentPtr tracker)\<lparr>Offset := Offset (currentPtr tracker) + DICT_ACCESS_SIZE\<rparr>\<rparr>
           in case hint_GetValue (Heap st) tracker key of
                (heap', Inl err) \<Rightarrow> (st\<lparr>Heap := heap'\<rparr>, Some err)
              | (heap', Inr val) \<Rightarrow>
                  (case ids_Insert ids ''value'' val (Vm st) of
                     Inl err \<Rightarrow> (st\<lparr>Heap := heap'\<rparr>, None)
                   | Inr vm' \<Rightarrow> (st\<lparr>Heap := heap', Vm := vm'\<rparr>, None)))))))"

text \<open>
  \<^verbatim>\<open>dictUpdate\<close>: after \<^verbatim>\<open>GetTracker\<close>,
  \<^verbatim>\<open>
  current_value, err := tracker.GetValue(key)
  if err != nil { return err }
  if *prev_value != *current_value {
      return errors.Errorf("Wrong previous value in dict. Got %v, expected %v.", *current_value, *prev_value)
  }
  tracker.InsertValue(key, new_value)
  tracker.CurrentPtr.Offset += DICT_ACCESS_SIZE
  return nil
  \<close>
\<close>

definition dictUpdate :: "IdsManager \<Rightarrow> HintState \<Rightarrow> HintState \<times> go_error option" where
  "dictUpdate ids st =
     (case FetchDictManager st of
        None \<Rightarrow> (st, Some (Err ''Variable __dict_manager not present in current execution scope''))
      | Some dictManager \<Rightarrow>
     (case ids_GetRelocatable ids ''dict_ptr'' (Vm st) of
        Inl err \<Rightarrow> (st, Some err)
      | Inr dict_ptr \<Rightarrow>
     (case ids_Get ids ''key'' (Vm st) of
        Inl err \<Rightarrow> (st, Some err)
      | Inr key \<Rightarrow>
     (case ids_Get ids ''new_value'' (Vm st) of
        Inl err \<Rightarrow> (st, Some err)
      | Inr new_value \<Rightarrow>
     (case ids_Get ids ''prev_value'' (Vm st) of
        Inl err \<Rightarrow> (st, Some err)
      | Inr prev_value \<Rightarrow>
     (case GetTracker dictManager dict_ptr of
        Inl err \<Rightarrow> (st, Some err)
      | Inr tracker \<Rightarrow>
          (case hint_GetValue (Heap st) tracker key of
             (heap', Inl err) \<Rightarrow> (st\<lparr>Heap := heap'\<rparr>, Some err)
           | (heap', Inr current_value) \<Rightarrow>
               if prev_value \<noteq> current_value
               then (st\<lparr>Heap := heap'\<rparr>,
                     Some (Errorf ''Wrong previous value in dict. Got %v, expected %v.''
                             [ArgMaybeRelocatable current_value, ArgMaybeRelocatable prev_value]))
               else
                 (case DictTracker_InsertValue heap' tracker key new_value of
                    Inl err \<Rightarrow> (st\<lparr>Heap := heap'\<rparr>, Some err)
                  | Inr heap'' \<Rightarrow>
                      (let tracker = tracker\<lparr>currentPtr :=
                             (currentPtr tracker)\<lparr>Offset := Offset (currentPtr tracker) + DICT_ACCESS_SIZE\<rparr>\<rparr>
                       in (st\<lparr>Heap := heap''\<rparr>, None))))))))))"

section \<open>Concrete inputs\<close>

text \<open>
  A \<^verbatim>\<open>call\<close> instruction as the compiler emits it: the return frame pointer goes to
  \<^verbatim>\<open>[ap]\<close>, the return program counter to \<^verbatim>\<open>[ap + 1]\<close>, the target is the immediate at
  \<^verbatim>\<open>[pc + 1]\<close>. In \<open>call_vm\<close> segment 0 holds the instruction and its immediate, and
  the two cells at \<^verbatim>\<open>ap\<close> are not written yet.
\<close>

definition call_instruction :: Instruction where
  "call_instruction =
     \<lparr>OffDst = 0, OffOp0 = 1, OffOp1 = 1, DstReg = AP, Op0Reg = AP, Op1Addr = Op1SrcImm,
      ResLogic = ResOp1, Opcode = Call\<rparr>"

definition call_vm :: VirtualMachine where
  "call_vm =
     \<lparr>RunContext = \<lparr>Pc = \<lparr>SegmentIndex = 0, Offset = 0\<rparr>, Ap = \<lparr>SegmentIndex = 1, Offset = 2\<rparr>,
                     Fp = \<lparr>SegmentIndex = 1, Offset = 0\<rparr>\<rparr>,
      SegmentsMemory = [\<lparr>SegmentIndex = 0, Offset = 0\<rparr> \<mapsto> MRInt (FeltFromUint64 1),
                        \<lparr>SegmentIndex = 0, Offset = 1\<rparr> \<mapsto> MRInt (FeltFromUint64 5)]\<rparr>"

text \<open>
  An \<^verbatim>\<open>assert_eq\<close> instruction with res-logic \<^verbatim>\<open>Add\<close> on \<^verbatim>\<open>[ap]\<close>, \<^verbatim>\<open>[ap + 1]\<close>,
  \<^verbatim>\<open>[ap + 2]\<close>. In \<open>add_vm\<close> the cells of \<^verbatim>\<open>dst\<close> (7) and \<^verbatim>\<open>op1\<close> (3) are written and
  the cell of \<^verbatim>\<open>op0\<close> is not.
\<close>

definition add_instruction :: Instruction where
  "add_instruction =
     \<lparr>OffDst = 0, OffOp0 = 1, OffOp1 = 2, DstReg = AP, Op0Reg = AP, Op1Addr = Op1SrcAP,
      ResLogic = ResAdd, Opcode = AssertEq\<rparr>"

definition add_vm :: VirtualMachine where
  "add_vm =
     \<lparr>RunContext = \<lparr>Pc = \<lparr>SegmentIndex = 0, Offset = 0\<rparr>, Ap = \<lparr>SegmentIndex = 1, Offset = 2\<rparr>,
                     Fp = \<lparr>SegmentIndex = 1, Offset = 0\<rparr>\<rparr>,
      SegmentsMemory = [\<lparr>SegmentIndex = 1, Offset = 2\<rparr> \<mapsto> MRInt (FeltFromUint64 7),
                        \<lparr>SegmentIndex = 1, Offset = 4\<rparr> \<mapsto> MRInt (FeltFromUint64 3)]\<rparr>"

text \<open>
  The identifiers of the dict hints, at five cells of segment 1, and a manager with one
  tracker, for segment 2, whose map is the map 0 of the heap and whose pointer is at the
  start of the segment.
\<close>

definition hint_ids :: IdsManager where
  "hint_ids =
     [''dict_ptr'' \<mapsto> \<lparr>SegmentIndex = 1, Offset = 0\<rparr>,
      ''key'' \<mapsto> \<lparr>SegmentIndex = 1, Offset = 1\<rparr>,
      ''value'' \<mapsto> \<lparr>SegmentIndex = 1, Offset = 2\<rparr>,
      ''prev_value'' \<mapsto> \<lparr>SegmentIndex = 1, Offset = 3\<rparr>,
      ''new_value'' \<mapsto> \<lparr>SegmentIndex = 1, Offset = 4\<rparr>]"

definition one_tracker :: "MaybeRelocatable option \<Rightarrow> DictManager" where
  "one_tracker dv =
     \<lparr>trackers = [2 \<mapsto> \<lparr>data = \<lparr>dict = MapRef 0, defaultValue = dv\<rparr>,
                          currentPtr = \<lparr>SegmentIndex = 2, Offset = 0\<rparr>\<rparr>]\<rparr>"

text \<open>
  \<open>read_state\<close>: the dictionary holds \<open>5 \<mapsto> 42\<close> and has no default;
  \<^verbatim>\<open>ids.dict_ptr = (2, 0)\<close>, \<^verbatim>\<open>ids.key = 5\<close>.
\<close>

definition read_state :: HintState where
  "read_state =
     \<lparr>Vm = \<lparr>RunContext = \<lparr>Pc = \<lparr>SegmentIndex = 0, Offset = 0\<rparr>, Ap = \<lparr>SegmentIndex = 1, Offset = 5\<rparr>,
                           Fp = \<lparr>SegmentIndex = 1, Offset = 0\<rparr>\<rparr>,
            SegmentsMemory =
              [\<lparr>SegmentIndex = 1, Offset = 0\<rparr> \<mapsto> MRRelocatable \<lparr>SegmentIndex = 2, Offset = 0\<rparr>,
               \<lparr>SegmentIndex = 1, Offset = 1\<rparr> \<mapsto> MRInt (FeltFromUint64 5)]\<rparr>,
      ScopeDictManager = Some (one_tracker None),
      Heap = (\<lambda>r. if r = 0 then [MRInt (FeltFromUint64 5) \<mapsto> MRInt (FeltFromUint64 42)]
                   else Map.empty)\<rparr>"

text \<open>
  \<open>update_state m prev\<close>: the dictionary has the default 0 and its map is \<open>m\<close>;
  \<^verbatim>\<open>ids.dict_ptr = (2, 0)\<close>, \<^verbatim>\<open>ids.key = 1\<close>, \<^verbatim>\<open>ids.prev_value = prev\<close>,
  \<^verbatim>\<open>ids.new_value = 11\<close>.
\<close>

definition update_state ::
    "(MaybeRelocatable \<Rightarrow> MaybeRelocatable option) \<Rightarrow> MaybeRelocatable \<Rightarrow> HintState" where
  "update_state m prev =
     \<lparr>Vm = \<lparr>RunContext = \<lparr>Pc = \<lparr>SegmentIndex = 0, Offset = 0\<rparr>, Ap = \<lparr>SegmentIndex = 1, Offset = 5\<rparr>,
                           Fp = \<lparr>SegmentIndex = 1, Offset = 0\<rparr>\<rparr>,
            SegmentsMemory =
              [\<lparr>SegmentIndex = 1, Offset = 0\<rparr> \<mapsto> MRRelocatable \<lparr>SegmentIndex = 2, Offset = 0\<rparr>,
               \<lparr>SegmentIndex = 1, Offset = 1\<rparr> \<mapsto> MRInt (FeltFromUint64 1),
               \<lparr>SegmentIndex = 1, Offset = 3\<rparr> \<mapsto> prev,
               \<lparr>SegmentIndex = 1, Offset = 4\<rparr> \<mapsto> MRInt (FeltFromUint64 11)]\<rparr>,
      ScopeDictManager = Some (one_tracker (Some (MRInt (FeltFromUint64 0)))),
      Heap = (\<lambda>r. if r = 0 then m else Map.empty)\<rparr>"

section \<open>Facts about field elements\<close>

lemma montgomery_inverse: "(MONTGOMERY_R * MONTGOMERY_R_INV) mod CAIRO_PRIME = 1"
  by (simp add: MONTGOMERY_R_def MONTGOMERY_R_INV_def CAIRO_PRIME_def)

lemma CAIRO_PRIME_bounds: "2 ^ 129 < CAIRO_PRIME" "CAIRO_PRIME < 2 ^ 256"
  by (simp_all add: CAIRO_PRIME_def)

lemma div_split: "(m::nat) div a = m div (a * b) * b + (m div a) mod b"
  by (simp add: div_mult2_eq)

text \<open>Four limbs hold every integer below \<open>2^256\<close>.\<close>

lemma limbs_nat_limbs_of_nat:
  assumes "n < 2 ^ 256"
  shows "limbs_nat (limbs_of_nat n) = n"
proof -
  have a: "n div 2 ^ 192 < 2 ^ 64"
    using assms by (simp add: less_mult_imp_div_less)
  have s1: "n = (n div 2 ^ 64) * 2 ^ 64 + n mod 2 ^ 64"
    by simp
  have s2: "n div 2 ^ 64 = (n div 2 ^ 128) * 2 ^ 64 + (n div 2 ^ 64) mod 2 ^ 64"
    using div_split [of n "2 ^ 64" "2 ^ 64"] by simp
  have s3: "n div 2 ^ 128 = (n div 2 ^ 192) * 2 ^ 64 + (n div 2 ^ 128) mod 2 ^ 64"
    using div_split [of n "2 ^ 128" "2 ^ 64"] by simp
  have "limbs_nat (limbs_of_nat n) =
      (n div 2 ^ 192) mod 2 ^ 64 * 2 ^ 192 + (n div 2 ^ 128) mod 2 ^ 64 * 2 ^ 128
        + (n div 2 ^ 64) mod 2 ^ 64 * 2 ^ 64 + n mod 2 ^ 64"
    by (simp add: limbs_nat_def limbs_of_nat_def unat_of_nat)
  also have "(n div 2 ^ 192) mod 2 ^ 64 = n div 2 ^ 192"
    using a by simp
  also have "n div 2 ^ 192 * 2 ^ 192 + (n div 2 ^ 128) mod 2 ^ 64 * 2 ^ 128
        + (n div 2 ^ 64) mod 2 ^ 64 * 2 ^ 64 + n mod 2 ^ 64 =
      ((n div 2 ^ 192 * 2 ^ 64 + (n div 2 ^ 128) mod 2 ^ 64) * 2 ^ 64
        + (n div 2 ^ 64) mod 2 ^ 64) * 2 ^ 64 + n mod 2 ^ 64"
    by (simp add: algebra_simps flip: power_add)
  also have "\<dots> = n"
    using s1 s2 s3 by simp
  finally show ?thesis .
qed

text \<open>Entering and leaving Montgomery form gives the value back.\<close>

lemma felt_value_felt_of_nat:
  assumes "n < CAIRO_PRIME"
  shows "felt_value (felt_of_nat n) = n"
proof -
  let ?m = "(n * MONTGOMERY_R) mod CAIRO_PRIME"
  have "?m < CAIRO_PRIME"
    by (simp add: CAIRO_PRIME_def)
  then have "?m < 2 ^ 256"
    using CAIRO_PRIME_bounds(2) by linarith
  then have "limbs_nat (limbs_of_nat ?m) = ?m"
    by (rule limbs_nat_limbs_of_nat)
  then have "felt_value (felt_of_nat n) = (?m * MONTGOMERY_R_INV) mod CAIRO_PRIME"
    by (simp add: felt_value_def felt_of_nat_def)
  also have "\<dots> = (n * (MONTGOMERY_R * MONTGOMERY_R_INV)) mod CAIRO_PRIME"
    by (simp add: mod_mult_left_eq mult.assoc)
  also have "\<dots> = (n * ((MONTGOMERY_R * MONTGOMERY_R_INV) mod CAIRO_PRIME)) mod CAIRO_PRIME"
    by (simp add: mod_mult_right_eq)
  also have "\<dots> = n"
    using assms by (simp add: montgomery_inverse)
  finally show ?thesis .
qed

lemma felt_value_FeltFromUint64: "felt_value (FeltFromUint64 v) = unat v"
proof -
  have "unat v < 2 ^ 64"
    using unsigned_less [of v, where 'a = nat] by simp
  also have "(2::nat) ^ 64 < 2 ^ 129"
    by simp
  finally have "unat v < CAIRO_PRIME"
    using CAIRO_PRIME_bounds(1) by linarith
  then show ?thesis
    by (simp add: FeltFromUint64_def felt_value_felt_of_nat)
qed

lemma FeltFromUint64_inject [simp]: "FeltFromUint64 a = FeltFromUint64 b \<longleftrightarrow> a = b"
proof
  assume "FeltFromUint64 a = FeltFromUint64 b"
  then have "felt_value (FeltFromUint64 a) = felt_value (FeltFromUint64 b)"
    by simp
  then show "a = b"
    by (simp add: felt_value_FeltFromUint64 word_unat_eq_iff)
qed simp


section \<open>Facts about the hints and the builtins\<close>

lemma bit_length_le_iff: "bit_length n \<le> k \<longleftrightarrow> n < 2 ^ k"
proof (induction n arbitrary: k rule: bit_length.induct)
  case (1 n)
  show ?case
  proof (cases "n = 0")
    case True
    then show ?thesis by (simp add: bit_length.simps)
  next
    case False
    note n0 = this
    show ?thesis
    proof (cases k)
      case 0
      with n0 show ?thesis by (simp add: bit_length.simps [of n])
    next
      case (Suc j)
      have "bit_length n \<le> Suc j \<longleftrightarrow> bit_length (n div 2) \<le> j"
        using n0 by (simp add: bit_length.simps [of n])
      also have "\<dots> \<longleftrightarrow> n div 2 < 2 ^ j"
        using "1.IH" [OF n0] .
      also have "\<dots> \<longleftrightarrow> n < 2 ^ Suc j"
        by auto
      finally show ?thesis using Suc by simp
    qed
  qed
qed

lemmas address_defs =
  ComputeDstAddr_def ComputeOp0Addr_def ComputeOp1Addr_def add_offset_def Memory_Get_def

lemmas hint_defs =
  hint_ids_def one_tracker_def FetchDictManager_def ids_GetRelocatable_def ids_Get_def
  ids_Insert_def Memory_GetRelocatable_def Memory_Get_def Memory_Insert_def GetRelocatable_def
  GetTracker_def hint_GetValue_def DictTracker_GetValue_def Dictionary_Get_def
  DictTracker_InsertValue_def Dictionary_Insert_def map_assign_def map_lookup_def

text \<open>
  A successful lookup through a tracker: the tracker's map is a map of the heap, the value
  was there or is the default, and the heap afterwards holds the value under the key.
\<close>

lemma hint_GetValue_Inr:
  assumes "hint_GetValue heap tracker key = (heap', Inr cur)"
  shows "\<exists>r. dict (data tracker) = MapRef r \<and> heap' = heap(r := (heap r)(key \<mapsto> cur)) \<and>
     (heap r key = Some cur \<or> heap r key = None \<and> defaultValue (data tracker) = Some cur)"
  using assms
  by (cases "dict (data tracker)")
     (auto simp: hint_GetValue_def DictTracker_GetValue_def Dictionary_Get_def map_lookup_def
        map_assign_def fun_upd_idem_iff map_upd_triv
        split: option.splits sum.splits prod.splits)

section \<open>Claims\<close>

text \<open>
  C1. \<^verbatim>\<open>ComputeOperands\<close> should read the three operands where present, derive a missing
  one by the deduction rules and write it back. It does not. On the \<^verbatim>\<open>call\<close> instruction,
  whose \<^verbatim>\<open>dst\<close> and \<^verbatim>\<open>op0\<close> cells are unwritten, \<^verbatim>\<open>DeduceOp0\<close> and \<^verbatim>\<open>DeduceDst\<close> give
  \<^verbatim>\<open>pc + size\<close> and \<^verbatim>\<open>fp\<close>, but \<^verbatim>\<open>ComputeOperands\<close> returns the zero operands with a nil
  error and leaves both cells unwritten. On the \<^verbatim>\<open>assert_eq\<close> instruction with res-logic
  \<^verbatim>\<open>Add\<close>, \<^verbatim>\<open>dst = 7\<close>, \<^verbatim>\<open>op1 = 3\<close> and no \<^verbatim>\<open>op0\<close>, it does the same.
\<close>

theorem ComputeOperands_skips_deduction:
  "ComputeOperands call_vm call_instruction = (call_vm, Inr Operands_zero) \<and>
   DeduceOp0 Sub Div call_vm call_instruction None None =
     Inr (Some (MRRelocatable \<lparr>SegmentIndex = 0, Offset = 2\<rparr>), None) \<and>
   DeduceDst call_vm call_instruction None = Some (MRRelocatable \<lparr>SegmentIndex = 1, Offset = 0\<rparr>) \<and>
   SegmentsMemory (fst (ComputeOperands call_vm call_instruction)) \<lparr>SegmentIndex = 1, Offset = 2\<rparr> = None \<and>
   SegmentsMemory (fst (ComputeOperands call_vm call_instruction)) \<lparr>SegmentIndex = 1, Offset = 3\<rparr> = None \<and>
   ComputeOperands add_vm add_instruction = (add_vm, Inr Operands_zero) \<and>
   SegmentsMemory (fst (ComputeOperands add_vm add_instruction)) \<lparr>SegmentIndex = 1, Offset = 3\<rparr> = None"
  by (simp add: ComputeOperands_def DeduceOp0_def DeduceDst_def Size_def call_vm_def
      call_instruction_def add_vm_def add_instruction_def address_defs)

text \<open>
  C2. At an offset \<open>3k + 2\<close> of its segment, with field elements in the two cells before,
  the pedersen runner should return the hash of the cell at \<open>3k\<close> and the cell at
  \<open>3k + 1\<close>, in this order. A runner as \<^verbatim>\<open>NewPedersenBuiltinRunner\<close> makes it has an empty
  \<^verbatim>\<open>verified_addresses\<close>: at every offset \<open>3k + 2\<close>, and so at offset 2,
  \<^verbatim>\<open>DeduceMemoryCell\<close> indexes it and panics, whatever the memory holds, and at every
  other offset it returns no value and leaves the runner as it is. Given a runner whose \<^verbatim>\<open>verified_addresses\<close> has three entries, the
  function returns \<^verbatim>\<open>PedersenHash\<close> of the cell at offset 1 and the cell at offset 0, in this
  order. At offsets 0 and 1 it returns no value.
\<close>

theorem Pedersen_DeduceMemoryCell_fresh_runner_panics:
  "Pedersen_DeduceMemoryCell PedersenHash (NewPedersenBuiltinRunner incl) address mem =
     (if Offset address mod 3 = 2 then Inl (Panic ''index out of range'')
      else Inr (NewPedersenBuiltinRunner incl, None)) \<and>
   Pedersen_DeduceMemoryCell PedersenHash (NewPedersenBuiltinRunner incl)
     \<lparr>SegmentIndex = s, Offset = 2\<rparr> mem = Inl (Panic ''index out of range'') \<and>
   Pedersen_DeduceMemoryCell PedersenHash
     ((NewPedersenBuiltinRunner incl)\<lparr>verified_addresses := [False, False, False]\<rparr>)
     \<lparr>SegmentIndex = s, Offset = 2\<rparr>
     [\<lparr>SegmentIndex = s, Offset = 0\<rparr> \<mapsto> MRInt a, \<lparr>SegmentIndex = s, Offset = 1\<rparr> \<mapsto> MRInt b] =
     Inr ((NewPedersenBuiltinRunner incl)\<lparr>verified_addresses := [False, False, False]\<rparr>,
          Some (MRInt (PedersenHash b a))) \<and>
   Pedersen_DeduceMemoryCell PedersenHash p \<lparr>SegmentIndex = s, Offset = 0\<rparr> mem = Inr (p, None) \<and>
   Pedersen_DeduceMemoryCell PedersenHash p \<lparr>SegmentIndex = s, Offset = 1\<rparr> mem = Inr (p, None)"
  by (simp add: Pedersen_DeduceMemoryCell_def NewPedersenBuiltinRunner_def
      PEDERSEN_CELLS_PER_INSTANCE_def Memory_GetFelt_def Memory_Get_def GetFelt_def GetInt_def)

text \<open>
  C3. A successful \<^verbatim>\<open>DICT_READ\<close> should leave the tracker's pointer advanced by 3 for the
  next hint. No run of \<^verbatim>\<open>dictRead\<close> changes the manager in the scopes. In \<open>read_state\<close>
  the hint succeeds and sets \<^verbatim>\<open>ids.value\<close> to 42; afterwards the manager still accepts the
  old pointer \<open>(2, 0)\<close> and refuses the advanced pointer \<open>(2, 3)\<close> with a Dict Error.
\<close>

theorem dictRead_pointer_not_advanced:
  "ScopeDictManager (fst (dictRead ids st)) = ScopeDictManager st \<and>
   snd (dictRead hint_ids read_state) = None \<and>
   ids_Get hint_ids ''value'' (Vm (fst (dictRead hint_ids read_state))) = Inr (MRInt (FeltFromUint64 42)) \<and>
   ScopeDictManager (fst (dictRead hint_ids read_state)) = Some (one_tracker None) \<and>
   GetTracker (one_tracker None) \<lparr>SegmentIndex = 2, Offset = 0\<rparr> =
     Inr \<lparr>data = \<lparr>dict = MapRef 0, defaultValue = None\<rparr>, currentPtr = \<lparr>SegmentIndex = 2, Offset = 0\<rparr>\<rparr> \<and>
   GetTracker (one_tracker None) \<lparr>SegmentIndex = 2, Offset = 3\<rparr> =
     Inl (Errorf ''Dict Error: Wrong dict pointer supplied. Got %v, expected %v''
            [ArgRelocatable \<lparr>SegmentIndex = 2, Offset = 3\<rparr>,
             ArgRelocatable \<lparr>SegmentIndex = 2, Offset = 0\<rparr>])"
proof -
  have "ScopeDictManager (fst (dictRead ids st)) = ScopeDictManager st"
    by (simp add: dictRead_def split: option.splits sum.splits prod.splits)
  moreover have "snd (dictRead hint_ids read_state) = None"
    by (simp add: dictRead_def read_state_def hint_defs)
  moreover have "ids_Get hint_ids ''value'' (Vm (fst (dictRead hint_ids read_state))) =
      Inr (MRInt (FeltFromUint64 42))"
    by (simp add: dictRead_def read_state_def hint_defs)
  moreover have "ScopeDictManager (fst (dictRead hint_ids read_state)) = Some (one_tracker None)"
    by (simp add: dictRead_def read_state_def hint_defs)
  moreover have "GetTracker (one_tracker None) \<lparr>SegmentIndex = 2, Offset = 0\<rparr> =
      Inr \<lparr>data = \<lparr>dict = MapRef 0, defaultValue = None\<rparr>, currentPtr = \<lparr>SegmentIndex = 2, Offset = 0\<rparr>\<rparr>"
    by (simp add: GetTracker_def one_tracker_def)
  moreover have "GetTracker (one_tracker None) \<lparr>SegmentIndex = 2, Offset = 3\<rparr> =
      Inl (Errorf ''Dict Error: Wrong dict pointer supplied. Got %v, expected %v''
             [ArgRelocatable \<lparr>SegmentIndex = 2, Offset = 3\<rparr>,
              ArgRelocatable \<lparr>SegmentIndex = 2, Offset = 0\<rparr>])"
    by (simp add: GetTracker_def one_tracker_def)
  ultimately show ?thesis by blast
qed

text \<open>
  C4, as stated, fails: in \<open>update_state Map.empty 99\<close> the key 1 is absent and the
  dictionary has the default 0. \<^verbatim>\<open>dictUpdate\<close> fails with the wrong-previous-value error
  for the current value 0 and the expected value 99, and the tracker's map, which had no
  entry for the key, now holds the default under it.
\<close>

theorem dictUpdate_mismatch_changes_map:
  "snd (dictUpdate hint_ids (update_state Map.empty (MRInt (FeltFromUint64 99)))) =
     Some (Errorf ''Wrong previous value in dict. Got %v, expected %v.''
             [ArgMaybeRelocatable (MRInt (FeltFromUint64 0)),
              ArgMaybeRelocatable (MRInt (FeltFromUint64 99))]) \<and>
   map_lookup (Heap (update_state Map.empty (MRInt (FeltFromUint64 99)))) (MapRef 0)
     (MRInt (FeltFromUint64 1)) = None \<and>
   map_lookup (Heap (fst (dictUpdate hint_ids (update_state Map.empty (MRInt (FeltFromUint64 99))))))
     (MapRef 0) (MRInt (FeltFromUint64 1)) = Some (MRInt (FeltFromUint64 0))"
  by (simp add: dictUpdate_def update_state_def hint_defs)

text \<open>
  C4, amended. Let \<^verbatim>\<open>DICT_UPDATE\<close> run with a manager in scope, its four identifiers
  readable, a tracker found for \<^verbatim>\<open>ids.dict_ptr\<close> and a current value for \<^verbatim>\<open>ids.key\<close>
  (the stored value, or the default of the dictionary when the key is absent). Then
  the tracker's map is a map \<open>r\<close> of the heap, and the lookup leaves the heap as it was
  except that the key holds the current value. If \<^verbatim>\<open>ids.prev_value\<close> differs from the
  current value, the hint fails with the error of the format
  \<^verbatim>\<open>Wrong previous value in dict. Got %v, expected %v.\<close> applied to the current value and
  then to \<^verbatim>\<open>ids.prev_value\<close>, and nothing else of the state changes: the manager and its
  trackers' pointers are as before. If they are equal, the hint succeeds and
  \<^verbatim>\<open>ids.new_value\<close> is stored under the key.
\<close>

theorem dictUpdate_checks_prev_value:
  assumes "FetchDictManager st = Some dm"
    and "ids_GetRelocatable ids ''dict_ptr'' (Vm st) = Inr dict_ptr"
    and "ids_Get ids ''key'' (Vm st) = Inr key"
    and "ids_Get ids ''new_value'' (Vm st) = Inr new_value"
    and "ids_Get ids ''prev_value'' (Vm st) = Inr prev_value"
    and "GetTracker dm dict_ptr = Inr tracker"
    and "hint_GetValue (Heap st) tracker key = (heap', Inr current_value)"
  shows "\<exists>r. dict (data tracker) = MapRef r \<and>
           heap' = (Heap st)(r := (Heap st r)(key \<mapsto> current_value)) \<and>
           (Heap st r key = Some current_value \<or>
            Heap st r key = None \<and> defaultValue (data tracker) = Some current_value) \<and>
           (if prev_value \<noteq> current_value
            then dictUpdate ids st =
                   (st\<lparr>Heap := heap'\<rparr>,
                    Some (Errorf ''Wrong previous value in dict. Got %v, expected %v.''
                            [ArgMaybeRelocatable current_value, ArgMaybeRelocatable prev_value]))
            else snd (dictUpdate ids st) = None \<and>
                 Heap (fst (dictUpdate ids st)) = heap'(r := (heap' r)(key \<mapsto> new_value)) \<and>
                 map_lookup (Heap (fst (dictUpdate ids st))) (dict (data tracker)) key =
                   Some new_value)"
proof -
  from hint_GetValue_Inr [OF assms(7)] obtain r where
    r: "dict (data tracker) = MapRef r"
      "heap' = (Heap st)(r := (Heap st r)(key \<mapsto> current_value))"
      "Heap st r key = Some current_value \<or>
         Heap st r key = None \<and> defaultValue (data tracker) = Some current_value"
    by blast
  have "dictUpdate ids st =
      (if prev_value \<noteq> current_value
       then (st\<lparr>Heap := heap'\<rparr>,
             Some (Errorf ''Wrong previous value in dict. Got %v, expected %v.''
                     [ArgMaybeRelocatable current_value, ArgMaybeRelocatable prev_value]))
       else (st\<lparr>Heap := heap'(r := (heap' r)(key \<mapsto> new_value))\<rparr>, None))"
    using assms r(1)
    by (simp add: dictUpdate_def DictTracker_InsertValue_def Dictionary_Insert_def map_assign_def)
  with r show ?thesis by (auto simp: map_lookup_def)
qed

text \<open>
  The amended C4 at the spec's scenario: the dictionary holds \<open>1 \<mapsto> 10\<close>. The update of
  key 1 that expects the previous value 99 fails with the current value 10 and the
  expected value 99 as the arguments of its message, and the state is unchanged. The
  update that expects 10 succeeds and stores the new value 11.
\<close>

theorem dictUpdate_checks_prev_value_witness:
  "dictUpdate hint_ids
     (update_state [MRInt (FeltFromUint64 1) \<mapsto> MRInt (FeltFromUint64 10)] (MRInt (FeltFromUint64 99))) =
   (update_state [MRInt (FeltFromUint64 1) \<mapsto> MRInt (FeltFromUint64 10)] (MRInt (FeltFromUint64 99)),
    Some (Errorf ''Wrong previous value in dict. Got %v, expected %v.''
            [ArgMaybeRelocatable (MRInt (FeltFromUint64 10)),
             ArgMaybeRelocatable (MRInt (FeltFromUint64 99))])) \<and>
   snd (dictUpdate hint_ids
     (update_state [MRInt (FeltFromUint64 1) \<mapsto> MRInt (FeltFromUint64 10)] (MRInt (FeltFromUint64 10)))) =
     None \<and>
   map_lookup (Heap (fst (dictUpdate hint_ids
     (update_state [MRInt (FeltFromUint64 1) \<mapsto> MRInt (FeltFromUint64 10)] (MRInt (FeltFromUint64 10))))))
     (MapRef 0) (MRInt (FeltFromUint64 1)) = Some (MRInt (FeltFromUint64 11))"
proof -
  let ?m = "[MRInt (FeltFromUint64 1) \<mapsto> MRInt (FeltFromUint64 10)]"
  let ?tracker = "\<lparr>data = \<lparr>dict = MapRef 0, defaultValue = Some (MRInt (FeltFromUint64 0))\<rparr>,
                   currentPtr = \<lparr>SegmentIndex = 2, Offset = 0\<rparr>\<rparr>"
  have h1: "FetchDictManager (update_state ?m prev) = Some (one_tracker (Some (MRInt (FeltFromUint64 0))))"
    for prev
    by (simp add: update_state_def FetchDictManager_def)
  have h2: "ids_GetRelocatable hint_ids ''dict_ptr'' (Vm (update_state ?m prev)) =
      Inr \<lparr>SegmentIndex = 2, Offset = 0\<rparr>" for prev
    by (simp add: update_state_def hint_defs)
  have h3: "ids_Get hint_ids ''key'' (Vm (update_state ?m prev)) = Inr (MRInt (FeltFromUint64 1))"
    for prev
    by (simp add: update_state_def hint_defs)
  have h4: "ids_Get hint_ids ''new_value'' (Vm (update_state ?m prev)) = Inr (MRInt (FeltFromUint64 11))"
    for prev
    by (simp add: update_state_def hint_defs)
  have h5: "ids_Get hint_ids ''prev_value'' (Vm (update_state ?m prev)) = Inr prev" for prev
    by (simp add: update_state_def hint_defs)
  have h6: "GetTracker (one_tracker (Some (MRInt (FeltFromUint64 0)))) \<lparr>SegmentIndex = 2, Offset = 0\<rparr> =
      Inr ?tracker"
    by (simp add: hint_defs)
  have h7: "hint_GetValue (Heap (update_state ?m prev)) ?tracker (MRInt (FeltFromUint64 1)) =
      (Heap (update_state ?m prev), Inr (MRInt (FeltFromUint64 10)))" for prev
    by (simp add: update_state_def hint_defs)
  have neq: "MRInt (FeltFromUint64 99) \<noteq> MRInt (FeltFromUint64 10)"
    by simp
  from dictUpdate_checks_prev_value [OF h1 h2 h3 h4 h5 h6 h7, of "MRInt (FeltFromUint64 99)"] neq
  have mismatch: "dictUpdate hint_ids (update_state ?m (MRInt (FeltFromUint64 99))) =
      (update_state ?m (MRInt (FeltFromUint64 99)),
       Some (Errorf ''Wrong previous value in dict. Got %v, expected %v.''
               [ArgMaybeRelocatable (MRInt (FeltFromUint64 10)),
                ArgMaybeRelocatable (MRInt (FeltFromUint64 99))]))"
    by auto
  from dictUpdate_checks_prev_value [OF h1 h2 h3 h4 h5 h6 h7, of "MRInt (FeltFromUint64 10)"]
  have match: "snd (dictUpdate hint_ids (update_state ?m (MRInt (FeltFromUint64 10)))) = None \<and>
      map_lookup (Heap (fst (dictUpdate hint_ids (update_state ?m (MRInt (FeltFromUint64 10))))))
        (MapRef 0) (MRInt (FeltFromUint64 1)) = Some (MRInt (FeltFromUint64 11))"
    by auto
  from mismatch match show ?thesis by blast
qed

text \<open>
  C5. Let the cell at \<open>address\<close> hold the value \<open>v\<close>. The range-check rule returns exactly
  \<open>[address]\<close> if and only if \<open>v\<close> is a field element of bit-length at most
  \<open>N_PARTS * INNER_RC_BOUND_SHIFT = 128\<close>, that is of value below \<open>2^128\<close>, and it returns no
  other list. On a field element of more bits it fails with the out-of-bounds error for
  that element, on an address with the not-a-field-element error for that address (and on
  an empty inner value with the same kind of error).
\<close>

theorem RangeCheckValidationRule_accepts_iff:
  assumes "mem address = Some v"
  shows "N_PARTS * INNER_RC_BOUND_SHIFT = 128 \<and>
         (RangeCheckValidationRule mem address = Inr [address] \<longleftrightarrow>
           (\<exists>f. v = MRInt f \<and> felt_Bits f \<le> 128)) \<and>
         ((\<exists>l. RangeCheckValidationRule mem address = Inr l) \<longleftrightarrow>
           (\<exists>f. v = MRInt f \<and> felt_value f < 2 ^ 128)) \<and>
         (case v of
            MRInt f \<Rightarrow>
              if felt_Bits f \<le> 128 then RangeCheckValidationRule mem address = Inr [address]
              else RangeCheckValidationRule mem address = Inl (OutsideBoundsError f)
          | MRRelocatable r \<Rightarrow>
              RangeCheckValidationRule mem address =
                Inl (RangeCheckError (Errorf ''Value %d found in %d is not a field element''
                                        [ArgRelocatable r, ArgRelocatable address]))
          | MRNil \<Rightarrow> RangeCheckValidationRule mem address = Inl (NotAFeltError address v))"
  using assms
  by (cases v)
     (auto simp: RangeCheckValidationRule_def Memory_Get_def GetFelt_def GetInt_def
        GetRelocatable_def N_PARTS_def INNER_RC_BOUND_SHIFT_def NotAFeltError_def felt_Bits_def
        bit_length_le_iff)

text \<open>
  C5 at three cells: the element 5 is validated, the element \<open>2^129\<close> is out of bounds, and
  an address is not a field element.
\<close>

theorem RangeCheckValidationRule_accepts_iff_witness:
  "RangeCheckValidationRule [\<lparr>SegmentIndex = 2, Offset = 0\<rparr> \<mapsto> MRInt (FeltFromUint64 5)]
     \<lparr>SegmentIndex = 2, Offset = 0\<rparr> = Inr [\<lparr>SegmentIndex = 2, Offset = 0\<rparr>] \<and>
   RangeCheckValidationRule [\<lparr>SegmentIndex = 2, Offset = 0\<rparr> \<mapsto> MRInt (felt_of_nat (2 ^ 129))]
     \<lparr>SegmentIndex = 2, Offset = 0\<rparr> = Inl (OutsideBoundsError (felt_of_nat (2 ^ 129))) \<and>
   RangeCheckValidationRule
     [\<lparr>SegmentIndex = 2, Offset = 0\<rparr> \<mapsto> MRRelocatable \<lparr>SegmentIndex = 1, Offset = 4\<rparr>]
     \<lparr>SegmentIndex = 2, Offset = 0\<rparr> =
     Inl (RangeCheckError (Errorf ''Value %d found in %d is not a field element''
            [ArgRelocatable \<lparr>SegmentIndex = 1, Offset = 4\<rparr>,
             ArgRelocatable \<lparr>SegmentIndex = 2, Offset = 0\<rparr>]))"
proof -
  have small: "felt_Bits (FeltFromUint64 5) \<le> 128"
    by (simp add: felt_Bits_def bit_length_le_iff felt_value_FeltFromUint64)
  have "felt_value (felt_of_nat (2 ^ 129)) = 2 ^ 129"
    using CAIRO_PRIME_bounds(1) by (rule felt_value_felt_of_nat)
  then have large: "\<not> felt_Bits (felt_of_nat (2 ^ 129)) \<le> 128"
    by (simp add: felt_Bits_def bit_length_le_iff)
  from small large
    RangeCheckValidationRule_accepts_iff
      [of "[\<lparr>SegmentIndex = 2, Offset = 0\<rparr> \<mapsto> MRInt (FeltFromUint64 5)]"
          "\<lparr>SegmentIndex = 2, Offset = 0\<rparr>" "MRInt (FeltFromUint64 5)"]
    RangeCheckValidationRule_accepts_iff
      [of "[\<lparr>SegmentIndex = 2, Offset = 0\<rparr> \<mapsto> MRInt (felt_of_nat (2 ^ 129))]"
          "\<lparr>SegmentIndex = 2, Offset = 0\<rparr>" "MRInt (felt_of_nat (2 ^ 129))"]
    RangeCheckValidationRule_accepts_iff
      [of "[\<lparr>SegmentIndex = 2, Offset = 0\<rparr> \<mapsto> MRRelocatable \<lparr>SegmentIndex = 1, Offset = 4\<rparr>]"
          "\<lparr>SegmentIndex = 2, Offset = 0\<rparr>" "MRRelocatable \<lparr>SegmentIndex = 1, Offset = 4\<rparr>"]
  show ?thesis by simp
qed

text \<open>
  C6. The sum of an address and a field element should fail when the new offset does not
  fit in 64 bits. With the address first it does not: the address \<open>(0, 2^64 - 1)\<close> plus the
  element 1 returns the empty value \<^verbatim>\<open>MaybeRelocatable{}\<close> and a nil error. With the element
  first, the same sum fails with the error of \<^verbatim>\<open>ToU64\<close>.
\<close>

theorem AddMaybeRelocatable_overflow_returns_nil_error:
  "AddMaybeRelocatable (MRRelocatable \<lparr>SegmentIndex = 0, Offset = 18446744073709551615\<rparr>)
     (MRInt (FeltFromUint64 1)) = Inr MRNil \<and>
   AddMaybeRelocatable (MRInt (FeltFromUint64 1))
     (MRRelocatable \<lparr>SegmentIndex = 0, Offset = 18446744073709551615\<rparr>) =
     Inl (Err ''Cannot convert felt to u64'')"
proof -
  have sum: "felt_Add (FeltFromUint64 18446744073709551615) (FeltFromUint64 1) =
      Felt 295935 18446744073709551615 18446744073709551584 17408"
    by (simp add: felt_Add_def felt_value_FeltFromUint64 felt_of_nat_def limbs_of_nat_def
        MONTGOMERY_R_def CAIRO_PRIME_def)
  show ?thesis
    by (simp add: AddMaybeRelocatable_def GetInt_def GetRelocatable_def AddFelt_def sum ToU64_def)
qed

text \<open>
  C7. For a relocation table \<open>T\<close> and an address \<open>a\<close> whose segment has an entry in \<open>T\<close>:
  \<^verbatim>\<open>RelocateAddress\<close> gives \<open>T[segment] + offset\<close> (a sum of 64-bit unsigned integers); a
  cell value that is this address becomes the field element of that sum; a cell value that
  is a field element stays as it is.
\<close>

theorem relocation_of_cell:
  assumes "0 \<le> SegmentIndex a" and "nat (SegmentIndex a) < length T"
  shows "RelocateAddress T a = Inr (T ! nat (SegmentIndex a) + Offset a) \<and>
         RelocateValue T (MRRelocatable a) =
           Inr (FeltFromUint64 (T ! nat (SegmentIndex a) + Offset a)) \<and>
         felt_value (FeltFromUint64 (T ! nat (SegmentIndex a) + Offset a)) =
           (unat (T ! nat (SegmentIndex a)) + unat (Offset a)) mod 2 ^ 64 \<and>
         RelocateValue T (MRInt f) = Inr f"
  using assms
  by (simp add: RelocateAddress_def RelocateValue_def GetInt_def GetRelocatable_def
      felt_value_FeltFromUint64 unat_word_ariths)

text \<open>C7 at the table \<open>[1, 10]\<close>: the address \<open>(1, 3)\<close> becomes 13.\<close>

theorem relocation_of_cell_witness:
  "RelocateAddress [1, 10] \<lparr>SegmentIndex = 1, Offset = 3\<rparr> = Inr 13 \<and>
   RelocateValue [1, 10] (MRRelocatable \<lparr>SegmentIndex = 1, Offset = 3\<rparr>) = Inr (FeltFromUint64 13) \<and>
   felt_value (FeltFromUint64 13) = 13 \<and>
   RelocateValue [1, 10] (MRInt (FeltFromUint64 7)) = Inr (FeltFromUint64 7)"
  using relocation_of_cell [of "\<lparr>SegmentIndex = 1, Offset = 3\<rparr>" "[1, 10]" "FeltFromUint64 7"]
  by simp


text \<open>
  C9. \<^verbatim>\<open>DeduceOp1\<close> should return for every combination of present and nil arguments. On
  an \<^verbatim>\<open>AssertEq\<close> instruction with res-logic \<^verbatim>\<open>Mul\<close> it panics with a nil dereference when
  \<^verbatim>\<open>dst\<close> is nil, whatever \<^verbatim>\<open>op0\<close> is, and when \<^verbatim>\<open>op0\<close> is nil. With the same
  instruction and a nil \<^verbatim>\<open>dst\<close>, \<^verbatim>\<open>DeduceOp0\<close> returns no deduction, and so does
  \<^verbatim>\<open>DeduceOp1\<close> itself with res-logic \<^verbatim>\<open>Add\<close>.
\<close>

theorem DeduceOp1_ResMul_nil_panics:
  "DeduceOp1 Sub Div vm (instruction\<lparr>ResLogic := ResMul, Opcode := AssertEq\<rparr>) None op0 =
     Inl (Panic ''invalid memory address or nil pointer dereference'') \<and>
   DeduceOp1 Sub Div vm (instruction\<lparr>ResLogic := ResMul, Opcode := AssertEq\<rparr>) (Some d) None =
     Inl (Panic ''invalid memory address or nil pointer dereference'') \<and>
   DeduceOp0 Sub Div vm (instruction\<lparr>ResLogic := ResMul, Opcode := AssertEq\<rparr>) None op1 =
     Inr (None, None) \<and>
   DeduceOp1 Sub Div vm (instruction\<lparr>ResLogic := ResAdd, Opcode := AssertEq\<rparr>) None op0 =
     Inr (None, None)"
  by (simp add: DeduceOp1_def DeduceOp0_def split: prod.splits option.splits)

text \<open>
  C10. Let \<open>key\<close> be absent from the map \<open>r\<close> of the heap. A dictionary made by
  \<^verbatim>\<open>NewDefaultDictionary\<close> with the default \<open>dv\<close> on that map answers \<^verbatim>\<open>Get\<close> with \<open>dv\<close>
  and stores \<open>dv\<close> under the key: the key is in the map afterwards, and a second \<^verbatim>\<open>Get\<close>
  finds it there and changes nothing. A dictionary made by \<^verbatim>\<open>NewDictionary\<close> on that map
  answers \<^verbatim>\<open>Get\<close> with no value and leaves the heap as it is.
\<close>

theorem Dictionary_Get_default_inserts:
  assumes "heap r key = None"
  shows "NewDefaultDictionary (Some dv) (Some (MapRef r)) =
           Inr \<lparr>dict = MapRef r, defaultValue = Some dv\<rparr> \<and>
         Dictionary_Get heap \<lparr>dict = MapRef r, defaultValue = Some dv\<rparr> key =
           Inr (heap(r := (heap r)(key \<mapsto> dv)), Some dv) \<and>
         map_lookup (heap(r := (heap r)(key \<mapsto> dv))) (MapRef r) key = Some dv \<and>
         Dictionary_Get (heap(r := (heap r)(key \<mapsto> dv))) \<lparr>dict = MapRef r, defaultValue = Some dv\<rparr> key =
           Inr (heap(r := (heap r)(key \<mapsto> dv)), Some dv) \<and>
         NewDictionary (Some (MapRef r)) = Inr \<lparr>dict = MapRef r, defaultValue = None\<rparr> \<and>
         Dictionary_Get heap \<lparr>dict = MapRef r, defaultValue = None\<rparr> key = Inr (heap, None)"
  using assms
  by (simp add: NewDefaultDictionary_def NewDictionary_def Dictionary_Get_def map_lookup_def
      map_assign_def)

text \<open>
  C10 on an empty map with the default 0 and the key 1: \<^verbatim>\<open>Get\<close> returns 0 and the map
  holds \<open>1 \<mapsto> 0\<close>; without a default it returns nothing.
\<close>

theorem Dictionary_Get_default_inserts_witness:
  "Dictionary_Get (\<lambda>r. Map.empty) \<lparr>dict = MapRef 0, defaultValue = Some (MRInt (FeltFromUint64 0))\<rparr>
     (MRInt (FeltFromUint64 1)) =
     Inr ((\<lambda>r. Map.empty)(0 := [MRInt (FeltFromUint64 1) \<mapsto> MRInt (FeltFromUint64 0)]),
          Some (MRInt (FeltFromUint64 0))) \<and>
   Dictionary_Get (\<lambda>r. Map.empty) \<lparr>dict = MapRef 0, defaultValue = None\<rparr> (MRInt (FeltFromUint64 1)) =
     Inr (\<lambda>r. Map.empty, None)"
  using Dictionary_Get_default_inserts
    [of "\<lambda>r. Map.empty" 0 "MRInt (FeltFromUint64 1)" "MRInt (FeltFromUint64 0)"]
  by simp

end
